theory Spec2Isabelle
  imports Complex_Main "HOL-Library.Char_ord" "HOL-Library.List_Lexorder"
begin

section \<open>Python values shared by the parsers\<close>

text \<open>
  The exceptions the parsers of \<open>pymrio/tools/ioparser.py\<close> raise themselves
  (\<open>ParserError\<close>, \<open>FileNotFoundError\<close>) and the ones that reach the caller from
  Python and its libraries.  A raising function returns \<open>Inl\<close> of the exception.
\<close>

datatype exn =
    ParserError string
  | FileNotFoundError string
  | KeyError string
  | IndexError
  | ValueError string
  | NameError string
  | AttributeError string
  | LinAlgError string
  | TypeError string

section \<open>Labelled tables, paths and the provenance log\<close>

subsection \<open>pandas data frames\<close>

text \<open>
  A data frame: the row labels, the column labels and the values, one list for each row.
  A label of a MultiIndex is the list of its levels, so a (region, sector) label is
  \<open>[region, sector]\<close>.  Labels may repeat, as in pandas.
\<close>

record ('r, 'c, 'v) frame =
  df_index :: "'r list"
  df_columns :: "'c list"
  df_values :: "'v list list"

definition positions :: "('a \<Rightarrow> bool) \<Rightarrow> 'a list \<Rightarrow> nat list" where
  "positions P xs = filter (\<lambda>j. P (xs ! j)) [0..<length xs]"

definition take_rows :: "nat list \<Rightarrow> ('r, 'c, 'v) frame \<Rightarrow> ('r, 'c, 'v) frame" where
  "take_rows is df =
     \<lparr>df_index = map (nth (df_index df)) is, df_columns = df_columns df,
      df_values = map (nth (df_values df)) is\<rparr>"

definition take_cols :: "nat list \<Rightarrow> ('r, 'c, 'v) frame \<Rightarrow> ('r, 'c, 'v) frame" where
  "take_cols js df =
     \<lparr>df_index = df_index df, df_columns = map (nth (df_columns df)) js,
      df_values = map (\<lambda>r. map (nth r) js) (df_values df)\<rparr>"

text \<open>Boolean selection, \<open>filter\<close> and \<open>drop\<close>: the rows or columns whose label satisfies \<open>P\<close>.\<close>

definition filter_rows :: "('r \<Rightarrow> bool) \<Rightarrow> ('r, 'c, 'v) frame \<Rightarrow> ('r, 'c, 'v) frame" where
  "filter_rows P df = take_rows (positions P (df_index df)) df"

definition filter_cols :: "('c \<Rightarrow> bool) \<Rightarrow> ('r, 'c, 'v) frame \<Rightarrow> ('r, 'c, 'v) frame" where
  "filter_cols P df = take_cols (positions P (df_columns df)) df"

text \<open>\<open>df.loc[labels, :]\<close> and \<open>df.loc[:, labels]\<close> for a list of labels of the frame.\<close>

definition loc_rows :: "'r list \<Rightarrow> ('r, 'c, 'v) frame \<Rightarrow> ('r, 'c, 'v) frame" where
  "loc_rows labels df = take_rows (concat (map (\<lambda>l. positions (\<lambda>x. x = l) (df_index df)) labels)) df"

definition loc_cols :: "'c list \<Rightarrow> ('r, 'c, 'v) frame \<Rightarrow> ('r, 'c, 'v) frame" where
  "loc_cols labels df = take_cols (concat (map (\<lambda>l. positions (\<lambda>x. x = l) (df_columns df)) labels)) df"

text \<open>\<open>Index.difference\<close>: the labels of the first index that are not in the second, once each, sorted.\<close>

definition difference :: "string list \<Rightarrow> string list \<Rightarrow> string list" where
  "difference xs ys = sort (remdups (filter (\<lambda>x. x \<notin> set ys) xs))"

text \<open>
  Assigning \<open>df.index = labels\<close> or \<open>df.columns = labels\<close>: a \<open>ValueError\<close> when the number
  of labels is not the number of rows or columns.
\<close>

definition set_index_labels :: "'s list \<Rightarrow> ('r, 'c, 'v) frame \<Rightarrow> exn + ('s, 'c, 'v) frame" where
  "set_index_labels labels df =
     (if length labels = length (df_index df)
      then Inr \<lparr>df_index = labels, df_columns = df_columns df, df_values = df_values df\<rparr>
      else Inl (ValueError ''Length mismatch''))"

definition set_columns_labels :: "'d list \<Rightarrow> ('r, 'c, 'v) frame \<Rightarrow> exn + ('r, 'd, 'v) frame" where
  "set_columns_labels labels df =
     (if length labels = length (df_columns df)
      then Inr \<lparr>df_index = df_index df, df_columns = labels, df_values = df_values df\<rparr>
      else Inl (ValueError ''Length mismatch''))"

definition transpose_frame :: "('r, 'c, 'v) frame \<Rightarrow> ('c, 'r, 'v) frame" where
  "transpose_frame df =
     \<lparr>df_index = df_columns df, df_columns = df_index df,
      df_values = map (\<lambda>j. map (\<lambda>r. r ! j) (df_values df)) [0..<length (df_columns df)]\<rparr>"

subsection \<open>Strings and paths\<close>

definition contains :: "string \<Rightarrow> string \<Rightarrow> bool" where
  "contains sub s = list_ex (\<lambda>i. take (length sub) (drop i s) = sub) [0..<Suc (length s)]"

definition startswith :: "string \<Rightarrow> string \<Rightarrow> bool" where
  "startswith s pre = (take (length pre) s = pre)"

definition endswith :: "string \<Rightarrow> string \<Rightarrow> bool" where
  "endswith s suf = (length suf \<le> length s \<and> drop (length s - length suf) s = suf)"

definition is_digit :: "char \<Rightarrow> bool" where
  "is_digit c = (c \<in> set ''0123456789'')"

text \<open>\<open>s.split(c)\<close> for a separator of one character.\<close>

fun split_on :: "char \<Rightarrow> string \<Rightarrow> string list" where
  "split_on c [] = [[]]"
| "split_on c (x # xs) =
     (if x = c then [] # split_on c xs
      else (case split_on c xs of [] \<Rightarrow> [[x]] | p # ps \<Rightarrow> (x # p) # ps))"

text \<open>\<open>re.findall(r'\d\d\d\d', s)\<close>: the groups of four digits, from the left, not overlapping.\<close>

function findall_4digits :: "string \<Rightarrow> string list" where
  "findall_4digits s =
     (if length s < 4 then []
      else if list_all is_digit (take 4 s) then take 4 s # findall_4digits (drop 4 s)
      else findall_4digits (tl s))"
  by pat_completeness auto
termination
  by (relation "measure length") auto

text \<open>\<open>os.path.split\<close> (directory and last component) and \<open>os.path.splitext\<close>.\<close>

definition dirname :: "string \<Rightarrow> string" where
  "dirname p =
     (let d = rev (dropWhile (\<lambda>c. c \<noteq> CHR ''/'') (rev p));
          stripped = rev (dropWhile (\<lambda>c. c = CHR ''/'') (rev d))
      in if stripped = [] then d else stripped)"

definition filename :: "string \<Rightarrow> string" where
  "filename p = rev (takeWhile (\<lambda>c. c \<noteq> CHR ''/'') (rev p))"

definition splitext :: "string \<Rightarrow> string \<times> string" where
  "splitext p =
     (let name = filename p;
          stem = dropWhile (\<lambda>c. c = CHR ''.'') name;
          ext = rev (takeWhile (\<lambda>c. c \<noteq> CHR ''.'') (rev stem))
      in if CHR ''.'' \<in> set stem
         then (take (length p - length ext - 1) p, CHR ''.'' # ext)
         else (p, []))"

definition join_path :: "string \<Rightarrow> string \<Rightarrow> string" where
  "join_path a b =
     (if b \<noteq> [] \<and> hd b = CHR ''/'' then b
      else if a = [] \<or> last a = CHR ''/'' then a @ b
      else a @ ''/'' @ b)"

text \<open>A year argument: \<open>None\<close>, an integer or a string, with Python's truth value and \<open>str\<close>.\<close>

datatype py_year = NoYear | IntYear int | StrYear string

definition digit_char :: "nat \<Rightarrow> char" where
  "digit_char d = ''0123456789'' ! d"

function nat_str :: "nat \<Rightarrow> string" where
  "nat_str n = (if n < 10 then [digit_char n] else nat_str (n div 10) @ [digit_char (n mod 10)])"
  by pat_completeness auto
termination
  by (relation "measure id") auto

definition int_str :: "int \<Rightarrow> string" where
  "int_str i = (if i < 0 then CHR ''-'' # nat_str (nat (- i)) else nat_str (nat i))"

definition truthy :: "py_year \<Rightarrow> bool" where
  "truthy y = (case y of NoYear \<Rightarrow> False | IntYear i \<Rightarrow> i \<noteq> 0 | StrYear s \<Rightarrow> s \<noteq> [])"

definition year_str :: "py_year \<Rightarrow> string" where
  "year_str y = (case y of NoYear \<Rightarrow> ''None'' | IntYear i \<Rightarrow> int_str i | StrYear s \<Rightarrow> s)"

subsection \<open>The provenance log\<close>

text \<open>
  Modelled from the spec: the class \<open>MRIOMetaData\<close> of \<open>pymrio.tools.iometadata\<close> is not
  among the source files.  The spec: an "ordered sequence of entries
  \<open>{kind: fileio|modify|note, text, timestamp}\<close> plus scalar metadata fields", "created
  empty at parse start", appended to and "never mutated retroactively".  An entry is its
  kind and its text; where the text quotes an amount, the amount is kept as a number.
\<close>

datatype entry = FileIO string | Modify string real | Note string

record meta_data =
  meta_location :: "string option"
  meta_name :: "string option"
  meta_description :: "string option"
  meta_version :: "string option"
  meta_system :: "string option"
  history :: "entry list"

definition MRIOMetaData ::
  "string option \<Rightarrow> string option \<Rightarrow> string option \<Rightarrow> string option \<Rightarrow> string option \<Rightarrow> meta_data" where
  "MRIOMetaData location name description vers system =
     \<lparr>meta_location = location, meta_name = name, meta_description = description,
      meta_version = vers, meta_system = system, history = []\<rparr>"

definition add_entry :: "entry \<Rightarrow> meta_data \<Rightarrow> meta_data" where
  "add_entry e m = m\<lparr>history := history m @ [e]\<rparr>"

definition is_modify :: "entry \<Rightarrow> bool" where
  "is_modify e = (case e of Modify _ _ \<Rightarrow> True | _ \<Rightarrow> False)"

definition is_fileio :: "entry \<Rightarrow> bool" where
  "is_fileio e = (case e of FileIO _ \<Rightarrow> True | _ \<Rightarrow> False)"
section \<open>Cecilia: \<open>cecilia_parser\<close>, its \<open>IOT_from_SUT\<close> and \<open>load_system\<close>\<close>

subsection \<open>The numpy operations the parser calls\<close>

text \<open>
  A two-dimensional array is the list of its rows; its entries are taken as real numbers,
  so rounding and overflow of the machine floats are outside this model.  An operation
  that numpy refuses for the shapes it is given returns the exception.
\<close>

type_synonym vec = "real list"
type_synonym matrix = "real list list"

definition ncols :: "matrix \<Rightarrow> nat" where
  "ncols M = (case M of [] \<Rightarrow> 0 | r # _ \<Rightarrow> length r)"

definition is_matrix :: "nat \<Rightarrow> nat \<Rightarrow> matrix \<Rightarrow> bool" where
  "is_matrix m n M = (length M = m \<and> list_all (\<lambda>r. length r = n) M)"

text \<open>The \<open>m\<close> by \<open>n\<close> array with entry \<open>f i j\<close> in row \<open>i\<close> and column \<open>j\<close>.\<close>

definition mat :: "nat \<Rightarrow> nat \<Rightarrow> (nat \<Rightarrow> nat \<Rightarrow> real) \<Rightarrow> matrix" where
  "mat m n f = map (\<lambda>i. map (f i) [0..<n]) [0..<m]"

definition col :: "matrix \<Rightarrow> nat \<Rightarrow> vec" where
  "col M j = map (\<lambda>r. r ! j) M"

text \<open>\<open>np.sum(M, axis=1)\<close> and \<open>np.sum(M, axis=0)\<close>.\<close>

definition sum_axis1 :: "matrix \<Rightarrow> vec" where
  "sum_axis1 M = map sum_list M"

definition sum_axis0 :: "matrix \<Rightarrow> vec" where
  "sum_axis0 M = map (\<lambda>j. sum_list (col M j)) [0..<ncols M]"

definition np_diag :: "vec \<Rightarrow> matrix" where
  "np_diag v = map (\<lambda>i. map (\<lambda>j. if i = j then v ! i else 0) [0..<length v]) [0..<length v]"

definition np_ones :: "nat \<Rightarrow> nat \<Rightarrow> matrix" where
  "np_ones m n = replicate m (replicate n 1)"

definition np_eye :: "nat \<Rightarrow> matrix" where
  "np_eye n = map (\<lambda>i. map (\<lambda>j. if i = j then 1 else 0) [0..<n]) [0..<n]"

definition np_transpose :: "matrix \<Rightarrow> matrix" where
  "np_transpose M = map (col M) [0..<ncols M]"

definition dot1 :: "vec \<Rightarrow> vec \<Rightarrow> real" where
  "dot1 u v = sum_list (map2 (*) u v)"

text \<open>\<open>A.dot(B)\<close>: a \<open>ValueError\<close> when the dot1 dimensions differ.\<close>

definition np_dot :: "matrix \<Rightarrow> matrix \<Rightarrow> exn + matrix" where
  "np_dot A B =
     (if ncols A \<noteq> length B then Inl (ValueError ''shapes not aligned'')
      else Inr (map (\<lambda>r. map (\<lambda>j. dot1 r (col B j)) [0..<ncols B]) A))"

text \<open>
  Element-wise operations broadcast: two lengths fit when they are equal or one of them
  is 1.  \<open>bcast n xs\<close> stretches a list of length 1 to length \<open>n\<close>.
\<close>

definition bcast :: "nat \<Rightarrow> 'a list \<Rightarrow> 'a list" where
  "bcast n xs = (if length xs = 1 \<and> n \<noteq> 1 then replicate n (hd xs) else xs)"

definition fits :: "nat \<Rightarrow> nat \<Rightarrow> bool" where
  "fits a b = (a = b \<or> a = 1 \<or> b = 1)"

definition bc_len :: "nat \<Rightarrow> nat \<Rightarrow> nat" where
  "bc_len a b = (if a = 1 then b else a)"


definition np_mat2 :: "(real \<Rightarrow> real \<Rightarrow> real) \<Rightarrow> matrix \<Rightarrow> matrix \<Rightarrow> exn + matrix" where
  "np_mat2 f A B =
     (if fits (length A) (length B) \<and> fits (ncols A) (ncols B)
      then (let m = bc_len (length A) (length B); n = bc_len (ncols A) (ncols B)
            in Inr (map2 (\<lambda>r s. map2 f (bcast n r) (bcast n s)) (bcast m A) (bcast m B)))
      else Inl (ValueError ''operands could not be broadcast together''))"

text \<open>A matrix against a vector: the vector is one row, repeated for every row.\<close>

definition np_mat_vec2 :: "(real \<Rightarrow> real \<Rightarrow> real) \<Rightarrow> matrix \<Rightarrow> vec \<Rightarrow> exn + matrix" where
  "np_mat_vec2 f A v =
     (if fits (ncols A) (length v)
      then (let n = bc_len (ncols A) (length v)
            in Inr (map (\<lambda>r. map2 f (bcast n r) (bcast n v)) A))
      else Inl (ValueError ''operands could not be broadcast together''))"

subsection \<open>Zero-safe division\<close>

text \<open>
  Modelled from the spec: \<open>div0\<close> is imported from \<open>pymrio.tools.iomath\<close>, which is not
  among the source files.  The spec: "any ratio with a zero denominator evaluates to 0
  rather than raising", "never propagate NaN/Inf".  \<open>true_divide\<close> is the IEEE quotient,
  which is not a finite number when the denominator is zero; \<open>div0\<close> puts 0 there.
\<close>

definition true_divide :: "real \<Rightarrow> real \<Rightarrow> real option" where
  "true_divide a b = (if b = 0 then None else Some (a / b))"

definition div0 :: "real \<Rightarrow> real \<Rightarrow> real" where
  "div0 a b = (case true_divide a b of None \<Rightarrow> 0 | Some c \<Rightarrow> c)"

subsection \<open>Dense inversion\<close>

text \<open>
  \<open>np.linalg.inv\<close>: a \<open>LinAlgError\<close> for an array that is not square and for one in
  which the elimination finds no pivot.  On exact numbers the inverse does not depend on
  the order of elimination; this is Gauss-Jordan elimination on the rows of \<open>M\<close>
  extended by the rows of the identity, taking in each column the first row with a
  non-zero entry as pivot.
\<close>

definition find_pivot :: "matrix \<Rightarrow> nat \<Rightarrow> nat option" where
  "find_pivot M k = List.find (\<lambda>i. M ! i ! k \<noteq> 0) [k..<length M]"

definition swap_rows :: "matrix \<Rightarrow> nat \<Rightarrow> nat \<Rightarrow> matrix" where
  "swap_rows M i j = M[i := M ! j, j := M ! i]"

definition scale_row :: "real \<Rightarrow> vec \<Rightarrow> vec" where
  "scale_row c r = map (\<lambda>a. c * a) r"

definition sub_row :: "vec \<Rightarrow> real \<Rightarrow> vec \<Rightarrow> vec" where
  "sub_row r c p = map2 (\<lambda>a b. a - c * b) r p"

definition eliminate :: "matrix \<Rightarrow> nat \<Rightarrow> matrix" where
  "eliminate M k =
     (let p = scale_row (1 / (M ! k ! k)) (M ! k)
      in map (\<lambda>i. if i = k then p else sub_row (M ! i) (M ! i ! k) p) [0..<length M])"

fun gauss_jordan :: "nat \<Rightarrow> nat \<Rightarrow> matrix \<Rightarrow> matrix option" where
  "gauss_jordan 0 k M = Some M"
| "gauss_jordan (Suc n) k M =
     (case find_pivot M k of
        None \<Rightarrow> None
      | Some p \<Rightarrow> gauss_jordan n (Suc k) (eliminate (swap_rows M k p) k))"

definition np_linalg_inv :: "matrix \<Rightarrow> exn + matrix" where
  "np_linalg_inv M =
     (if \<not> is_matrix (length M) (length M) M
      then Inl (LinAlgError ''Last 2 dimensions of the array must be square'')
      else (case gauss_jordan (length M) 0 (map2 (@) M (np_eye (length M))) of
              None \<Rightarrow> Inl (LinAlgError ''Singular matrix'')
            | Some R \<Rightarrow> Inr (map (drop (length M)) R)))"



definition is_linalg :: "exn \<Rightarrow> bool" where
  "is_linalg e = (case e of LinAlgError _ \<Rightarrow> True | _ \<Rightarrow> False)"

subsection \<open>Notions for reasoning about the elimination\<close>


definition shape :: "nat \<Rightarrow> nat \<Rightarrow> matrix \<Rightarrow> bool" where
  "shape n w R = (length R = n \<and> (\<forall>r\<in>set R. length r = w))"




subsection \<open>\<open>IOT_from_SUT\<close>\<close>

text \<open>
  \<open>kind\<close> is \<open>'pxp'\<close> or \<open>'ixi'\<close>; for any other string the function falls off its end
  and returns \<open>None\<close>.
\<close>

definition IOT_from_SUT :: "matrix \<Rightarrow> matrix \<Rightarrow> string \<Rightarrow> exn + matrix option" where
  "IOT_from_SUT S U kind =
     (if kind = ''pxp'' then
        (case np_dot (np_diag (sum_axis1 S)) (np_ones (length S) (ncols S)) of Inl e \<Rightarrow> Inl e
         | Inr D \<Rightarrow>
        (case np_mat2 div0 S D of Inl e \<Rightarrow> Inl e | Inr R \<Rightarrow>
        (case np_dot U R of Inl e \<Rightarrow> Inl e | Inr P \<Rightarrow> Inr (Some (np_transpose P)))))
      else if kind = ''ixi'' then
        (case np_dot (np_ones (length S) (ncols S)) (np_diag (sum_axis0 S)) of Inl e \<Rightarrow> Inl e
         | Inr D \<Rightarrow>
        (case np_mat2 div0 S D of Inl e \<Rightarrow> Inl e | Inr R \<Rightarrow>
        (case np_dot R U of Inl e \<Rightarrow> Inl e | Inr P \<Rightarrow> Inr (Some P))))
      else Inr None)"

subsection \<open>\<open>load_matrix\<close>, \<open>load_extensions\<close> and \<open>load_system\<close>\<close>
























text \<open>A supply table, a use table and a final demand for two industries and two products.\<close>

definition small_S :: matrix where
  "small_S = [[1, 1], [0, 0]]"

definition small_U :: matrix where
  "small_U = [[1, 2], [3, 4]]"





section \<open>EXIOBASE 1 and 2: \<open>get_exiobase_files\<close> and \<open>parse_exiobase1\<close>\<close>

subsection \<open>File name patterns\<close>

text \<open>
  The patterns are all of the form \<open>(?<!\_)NAME.*txt\<close>.  \<open>re.search\<close> finds one in a
  file name when \<open>NAME\<close> occurs at some position, not preceded by an underscore, and
  \<open>txt\<close> follows it after any number of characters other than a newline.
\<close>

fun dot_star_txt :: "string \<Rightarrow> bool" where
  "dot_star_txt [] = False"
| "dot_star_txt (c # cs) = (take 3 (c # cs) = ''txt'' \<or> (c \<noteq> CHR 0x0A \<and> dot_star_txt cs))"

definition match_at :: "string \<Rightarrow> string \<Rightarrow> nat \<Rightarrow> bool" where
  "match_at name s i =
     (take (length name) (drop i s) = name \<and> (i = 0 \<or> s ! (i - 1) \<noteq> CHR ''_'')
      \<and> dot_star_txt (drop (i + length name) s))"

definition re_search :: "string \<Rightarrow> string \<Rightarrow> bool" where
  "re_search name s = list_ex (match_at name s) [0..<Suc (length s)]"

text \<open>
  \<open>exio_core_regex\<close>: the tables in the order of the dictionary, each with the \<open>NAME\<close>
  of its pattern.
\<close>

definition exio_core_regex :: "bool \<Rightarrow> (string \<times> string) list" where
  "exio_core_regex coeff =
     (if coeff then
        [(''A'', ''mrIot''), (''Y'', ''mrFinalDemand''),
         (''S_factor_inputs'', ''mrFactorInputs''), (''S_emissions'', ''mrEmissions''),
         (''S_materials'', ''mrMaterials''), (''S_resources'', ''mrResources''),
         (''F_Y_resources'', ''mrFDResources''), (''F_Y_emissions'', ''mrFDEmissions''),
         (''F_Y_materials'', ''mrFDMaterials'')]
      else
        [(''Z'', ''mrIot''), (''Y'', ''mrFinalDemand''),
         (''F_factor_inputs'', ''mrFactorInputs''), (''F_emissions'', ''mrEmissions''),
         (''F_materials'', ''mrMaterials''), (''F_resources'', ''mrResources''),
         (''F_Y_emissions'', ''mrFDEmissions''), (''F_Y_materials'', ''mrFDMaterials'')])"

subsection \<open>The collaborators of the file location\<close>

text \<open>
  \<open>get_repo_content\<close> and \<open>sniff_csv_format\<close> are imported from \<open>pymrio.tools.ioutil\<close>,
  which is not part of this file: they are taken as given, the first by the listing it
  returns for a path, the second by the format it finds for a file (with the zip archive
  the file is in, if any).  The version string that \<open>get_exiobase12_version\<close> cuts out
  of a file name with a regular expression is taken as given as well.
\<close>

record repo_content =
  iszip :: bool
  filelist :: "string list"

record format_para =
  sep :: string
  nr_header_row :: nat
  nr_index_col :: nat

record exio_env =
  get_repo_content :: "string \<Rightarrow> exn + repo_content"
  sniff_csv_format :: "string \<Rightarrow> string option \<Rightarrow> exn + format_para"
  get_exiobase12_version :: "string \<Rightarrow> string option"

record exio_file =
  root_repo :: string
  file_path :: string
  version :: "string option"
  index_rows :: nat
  index_col :: nat
  unit_col :: int
  file_sep :: string

text \<open>What the \<open>logging\<close> module is given.\<close>

datatype log_record =
    WarnMultipleFiles string "string list"
  | DebugProcessFile string
  | WarnNoSystem

subsection \<open>\<open>get_exiobase_files\<close>\<close>

text \<open>
  The loop over the patterns.  With more than one file found, the source warns and cuts
  the list to its first element; the branch that registers the file is the \<open>else\<close> of
  the same \<open>if\<close>, so it is not run.
\<close>

fun locate_files ::
  "exio_env \<Rightarrow> string \<Rightarrow> repo_content \<Rightarrow> (string \<times> string) list
     \<Rightarrow> (string \<times> exio_file) list \<Rightarrow> log_record list
     \<Rightarrow> (exn + (string \<times> exio_file) list) \<times> log_record list" where
  "locate_files env path rc [] exio_files lg = (Inr exio_files, lg)"
| "locate_files env path rc ((kk, vv) # rest) exio_files lg =
     (let found_file = filter (re_search vv) (filelist rc) in
      if length found_file > 1 then
        locate_files env path rc rest exio_files (lg @ [WarnMultipleFiles kk found_file])
      else if length found_file = 0 then
        locate_files env path rc rest exio_files lg
      else
        (case (if iszip rc then sniff_csv_format env (found_file ! 0) (Some path)
               else sniff_csv_format env (join_path path (found_file ! 0)) None) of
           Inl e \<Rightarrow> (Inl e, lg @ [DebugProcessFile (found_file ! 0)])
         | Inr format_para \<Rightarrow>
             locate_files env path rc rest
               (exio_files @
                  [(kk, \<lparr>root_repo = path, file_path = found_file ! 0,
                         version = get_exiobase12_version env (filename (found_file ! 0)),
                         index_rows = nr_header_row format_para,
                         index_col = nr_index_col format_para,
                         unit_col = int (nr_index_col format_para) - 1,
                         file_sep = sep format_para\<rparr>)])
               (lg @ [DebugProcessFile (found_file ! 0)])))"

text \<open>\<open>path\<close> is the normalised path (\<open>os.path.normpath(str(path))\<close>).\<close>

definition get_exiobase_files ::
  "exio_env \<Rightarrow> string \<Rightarrow> bool \<Rightarrow> (exn + (string \<times> exio_file) list) \<times> log_record list" where
  "get_exiobase_files env path coeff =
     (case get_repo_content env path of
        Inl e \<Rightarrow> (Inl e, [])
      | Inr rc \<Rightarrow> locate_files env path rc (exio_core_regex coeff) [] [])"

subsection \<open>\<open>parse_exiobase1\<close>\<close>

text \<open>\<open>re.search(word, path, flags=re.IGNORECASE)\<close> for a word of lower-case letters.\<close>

definition lower :: "char \<Rightarrow> char" where
  "lower c =
     (let n = (of_char c :: nat) in if 65 \<le> n \<and> n \<le> 90 then char_of (n + 32) else c)"

definition search_ignorecase :: "string \<Rightarrow> string \<Rightarrow> bool" where
  "search_ignorecase word s =
     list_ex (\<lambda>i. take (length word) (drop i (map lower s)) = word) [0..<Suc (length s)]"

definition get_MRIO_system :: "string \<Rightarrow> string option" where
  "get_MRIO_system path =
     (let ispxp = search_ignorecase ''pxp'' path; isixi = search_ignorecase ''ixi'' path
      in if ispxp = isixi then None else Some (if ispxp then ''pxp'' else ''ixi''))"

text \<open>
  \<open>parse_exiobase1\<close>, on the absolute normalised path.  The parser proper,
  \<open>generic_exiobase12_parser\<close>, reads the located files with pandas and builds the
  \<open>IOSystem\<close>; here it is the parameter \<open>parser\<close>, applied to what it is handed.
\<close>

definition parse_exiobase1 ::
  "exio_env \<Rightarrow> ((string \<times> exio_file) list \<Rightarrow> string option \<Rightarrow> exn + 'sys) \<Rightarrow> string
     \<Rightarrow> (exn + 'sys) \<times> log_record list" where
  "parse_exiobase1 env parser path =
     (case get_exiobase_files env path True of
        (Inl e, lg) \<Rightarrow> (Inl e, lg)
      | (Inr exio_files, lg) \<Rightarrow>
          if length exio_files = 0 then
            (Inl (ParserError (''No EXIOBASE files found at '' @ path)), lg)
          else
            (let system = get_MRIO_system path;
                 lg' = (if system = None then lg @ [WarnNoSystem] else lg)
             in (parser exio_files system, lg')))"

text \<open>
  A folder with the interindustry table only, and one with two candidates for it and a
  final demand table.  Every file has three index columns and two header rows.
\<close>

definition tab_format :: format_para where
  "tab_format = \<lparr>sep = [CHR 0x09], nr_header_row = 2, nr_index_col = 3\<rparr>"

definition folder_env :: "string list \<Rightarrow> exio_env" where
  "folder_env files =
     \<lparr>get_repo_content = (\<lambda>p. Inr \<lparr>iszip = False, filelist = files\<rparr>),
      sniff_csv_format = (\<lambda>f z. Inr tab_format),
      get_exiobase12_version = (\<lambda>f. None)\<rparr>"

definition handed_tables :: "(string \<times> exio_file) list \<Rightarrow> string option \<Rightarrow> exn + string list" where
  "handed_tables exio_files system = Inr (map fst exio_files)"

subsection \<open>What the loop registers and logs, table by table\<close>

definition found_for :: "repo_content \<Rightarrow> string \<Rightarrow> string list" where
  "found_for rc vv = filter (re_search vv) (filelist rc)"

definition entry_for :: "exio_env \<Rightarrow> string \<Rightarrow> repo_content \<Rightarrow> string \<Rightarrow> exio_file" where
  "entry_for env path rc f =
     (let format_para = projr (if iszip rc then sniff_csv_format env f (Some path)
                               else sniff_csv_format env (join_path path f) None)
      in \<lparr>root_repo = path, file_path = f,
          version = get_exiobase12_version env (filename f),
          index_rows = nr_header_row format_para, index_col = nr_index_col format_para,
          unit_col = int (nr_index_col format_para) - 1, file_sep = sep format_para\<rparr>)"

definition located :: "exio_env \<Rightarrow> string \<Rightarrow> repo_content \<Rightarrow> (string \<times> string) list
    \<Rightarrow> (string \<times> exio_file) list" where
  "located env path rc tabs =
     concat (map (\<lambda>(kk, vv). if length (found_for rc vv) = 1
                               then [(kk, entry_for env path rc (found_for rc vv ! 0))] else []) tabs)"

definition logged :: "repo_content \<Rightarrow> (string \<times> string) list \<Rightarrow> log_record list" where
  "logged rc tabs =
     concat (map (\<lambda>(kk, vv). if length (found_for rc vv) > 1
                               then [WarnMultipleFiles kk (found_for rc vv)]
                               else if length (found_for rc vv) = 0 then []
                               else [DebugProcessFile (found_for rc vv ! 0)]) tabs)"
section \<open>OECD-ICIO: \<open>parse_oecd\<close>\<close>

text \<open>
  A csv table as \<open>pd.read_csv(file, sep=',', index_col=0)\<close> returns it: row and column
  labels are strings, a value is a number or missing (\<open>None\<close> for NaN).  A label of the
  canonical tables is a tuple of strings.
\<close>

type_synonym tup = "string list"
type_synonym csv_frame = "(string, string, real option) frame"
type_synonym io_frame = "(tup, tup, real option) frame"
type_synonym ext_frame = "(string, tup, real option) frame"

record oecd_fs =
  oecd_isdir :: "string \<Rightarrow> bool"
  oecd_listdir :: "string \<Rightarrow> string list"
  oecd_csv :: "string \<rightharpoonup> csv_frame"

definition fillna0 :: "('r, 'c, real option) frame \<Rightarrow> ('r, 'c, real option) frame" where
  "fillna0 df = df\<lparr>df_values := map (map (\<lambda>v. case v of None \<Rightarrow> Some 0 | Some a \<Rightarrow> Some a)) (df_values df)\<rparr>"

subsection \<open>Which file to parse\<close>

definition oecd_file_starts :: "string list" where
  "oecd_file_starts = [''ICIO2016_'', ''ICIO2018_'']"

text \<open>The result is the data file and the folder it is in.\<close>

definition oecd_locate :: "oecd_fs \<Rightarrow> string \<Rightarrow> py_year \<Rightarrow> exn + (string \<times> string)" where
  "oecd_locate fs path year =
     (if \<not> oecd_isdir fs path then Inr (path, dirname path)
      else if \<not> truthy year then
        Inl (ParserError ''No year specified (either specify a specific file or path and year)'')
      else
        (let oecd_file_list =
               filter (\<lambda>fl. snd (splitext fl) \<in> set [''.csv'', ''.CSV'', ''.zip'']
                            \<and> fst (splitext fl) \<in> set (map (\<lambda>oo. oo @ year_str year) oecd_file_starts))
                 (oecd_listdir fs path)
         in if length oecd_file_list > 1
               \<and> length (remdups (map (\<lambda>fl. fst (splitext fl)) oecd_file_list)) > 1 then
              Inl (ParserError ''Multiple files for a given year found (specify a specific file in the parameter path)'')
            else if length oecd_file_list = 0 then
              Inl (FileNotFoundError ''No data file for the given year found'')
            else Inr (join_path path (oecd_file_list ! 0), path)))"

text \<open>Version, year and description from the digits in the file name.\<close>

definition oecd_meta_of :: "string \<Rightarrow> string \<Rightarrow> meta_data" where
  "oecd_meta_of path oecd_file_name =
     (let years = findall_4digits oecd_file_name;
          (oecd_version, meta_desc) =
            (if length years \<ge> 2 then (''v'' @ years ! 0, ''OECD ICIO for '' @ years ! 1)
             else (''n/a'', ''OECD ICIO - year undefined''))
      in MRIOMetaData (Some path) (Some ''OECD-ICIO'') (Some meta_desc) (Some oecd_version)
           (Some ''IxI''))"

subsection \<open>The tables before the aggregation\<close>

definition final_demand_marks :: "string list" where
  "final_demand_marks =
     [''HFCE'', ''NPISH'', ''NPS'', ''GGFC'', ''GFCF'', ''INVNT'', ''INV'', ''DIRP'', ''FD'',
      ''P33'', ''DISC'']"

text \<open>
  \<open>pd.MultiIndex.from_tuples\<close> followed by the assignment of two level names: the list of
  tuples must not be empty and, for two names to fit, every tuple has two entries.
\<close>

definition from_tuples2 :: "tup list \<Rightarrow> exn + tup list" where
  "from_tuples2 ts =
     (if ts = [] then Inl (TypeError ''Cannot infer number of levels from empty list'')
      else if list_all (\<lambda>t. length t = 2) ts then Inr ts
      else Inl (ValueError ''Length of names must match number of levels in MultiIndex''))"

definition region_of :: "tup \<Rightarrow> string" where
  "region_of l = l ! 0"

definition sector_of :: "tup \<Rightarrow> string" where
  "sector_of l = l ! 1"

definition Y_column_label :: "string list \<Rightarrow> string \<Rightarrow> tup" where
  "Y_column_label region_names orig_idx =
     (let entries0 = split_on (CHR ''_'') orig_idx;
          entries = (if length entries0 = 1 then [''ALL'', entries0 ! 0] else entries0)
      in if entries ! 1 \<in> set region_names then [entries ! 1, entries ! 0] else entries)"

record oecd_tables =
  tab_Z :: io_frame
  tab_Y :: io_frame
  tab_F :: ext_frame
  tab_F_Y :: ext_frame
  tab_meta :: meta_data

definition oecd_read :: "oecd_fs \<Rightarrow> string \<Rightarrow> py_year \<Rightarrow> exn + oecd_tables" where
  "oecd_read fs path0 year =
     (case oecd_locate fs path0 year of Inl e \<Rightarrow> Inl e | Inr (oecd_file, path) \<Rightarrow>
     (let meta0 = oecd_meta_of path (filename oecd_file) in
     (case oecd_csv fs oecd_file of None \<Rightarrow> Inl (FileNotFoundError oecd_file) | Some csv \<Rightarrow>
     (let meta_rec = add_entry (FileIO (''OECD data parsed from '' @ oecd_file)) meta0;
          raw1 = filter_cols (\<lambda>c. c \<notin> set [''TOTAL'']) (fillna0 csv);
          oecd_raw = filter_rows (\<lambda>r. r \<notin> set [''OUT'', ''OUTPUT'']) raw1;
          factor_input = filter_rows (\<lambda>r. contains ''VALU'' r \<or> contains ''TAX'' r) oecd_raw;
          final_demand = filter_cols (\<lambda>c. list_ex (\<lambda>k. contains k c) final_demand_marks) oecd_raw;
          Z0 = loc_cols (difference (df_columns oecd_raw) (df_columns final_demand))
                 (loc_rows (difference (df_index oecd_raw) (df_index factor_input)) oecd_raw);
          F0 = loc_cols (difference (df_columns factor_input) (df_columns final_demand))
                 factor_input;
          F_Y0 = loc_cols (df_columns final_demand) factor_input;
          Y0 = loc_rows (difference (df_index final_demand) (df_index F0)) final_demand
      in
     (case from_tuples2 (map (split_on (CHR ''_'')) (df_index Z0)) of Inl e \<Rightarrow> Inl e
      | Inr Z_index \<Rightarrow>
     (case set_index_labels Z_index Z0 of Inl e \<Rightarrow> Inl e | Inr Z1 \<Rightarrow>
     (case set_columns_labels Z_index Z1 of Inl e \<Rightarrow> Inl e | Inr Z \<Rightarrow>
     (case from_tuples2 (map (Y_column_label (remdups (map region_of Z_index))) (df_columns Y0))
      of Inl e \<Rightarrow> Inl e | Inr Y_columns \<Rightarrow>
     (case set_columns_labels Y_columns Y0 of Inl e \<Rightarrow> Inl e | Inr Y1 \<Rightarrow>
     (case set_index_labels (df_index Z) Y1 of Inl e \<Rightarrow> Inl e | Inr Y \<Rightarrow>
     (case set_columns_labels (df_columns Z) F0 of Inl e \<Rightarrow> Inl e | Inr F \<Rightarrow>
     (case set_columns_labels (df_columns Y) F_Y0 of Inl e \<Rightarrow> Inl e | Inr F_Y1 \<Rightarrow>
     (case set_index_labels (df_index F) F_Y1 of Inl e \<Rightarrow> Inl e | Inr F_Y \<Rightarrow>
        Inr \<lparr>tab_Z = Z, tab_Y = Y, tab_F = F, tab_F_Y = F_Y, tab_meta = meta_rec\<rparr>
     )))))))))))))"

subsection \<open>Aggregation of the sub-regions of China and Mexico\<close>

text \<open>
  \<open>vadd\<close> is the sum of two frame values, NaN when one of them is; \<open>nan0\<close> reads a value
  for a sum that skips NaN, as \<open>DataFrame.sum\<close> does.
\<close>

definition vadd :: "real option \<Rightarrow> real option \<Rightarrow> real option" where
  "vadd a b = (case (a, b) of (Some x, Some y) \<Rightarrow> Some (x + y) | _ \<Rightarrow> None)"

definition nan0 :: "real option \<Rightarrow> real" where
  "nan0 v = (case v of None \<Rightarrow> 0 | Some a \<Rightarrow> a)"

text \<open>The column sums of a group of rows of length \<open>w\<close>: \<open>.sum(level='sector', axis=0)\<close> for one sector.\<close>

definition group_sum :: "nat \<Rightarrow> real option list list \<Rightarrow> real option list" where
  "group_sum w grp = map (\<lambda>j. Some (sum_list (map (\<lambda>r. nan0 (r ! j)) grp))) [0..<w]"

text \<open>
  \<open>Z.loc[co_name, :] = Z.loc[[co_name], :] + Z.loc[agg_list, :].sum(level='sector', axis=0)\<close>
  followed by \<open>Z.drop(agg_list, axis=0)\<close>.  The sum over the sub-regions is indexed by
  sector; adding it to the rows of the target region aligns on the sector, and a target
  row whose sector no sub-region has becomes NaN.
\<close>

definition agg_rows :: "string \<Rightarrow> string list \<Rightarrow> (tup, 'c, real option) frame \<Rightarrow> (tup, 'c, real option) frame" where
  "agg_rows co_name agg_list df =
     (let rows = zip (df_index df) (df_values df);
          sub = filter (\<lambda>(l, r). region_of l \<in> set agg_list) rows;
          new_row = (\<lambda>(l, r).
            if region_of l = co_name then
              (let grp = map snd (filter (\<lambda>(l', r'). sector_of l' = sector_of l) sub)
               in if grp = [] then map (\<lambda>v. None) r else map2 vadd r (group_sum (length r) grp))
            else r);
          summed = df\<lparr>df_values := map new_row rows\<rparr>
      in filter_rows (\<lambda>l. region_of l \<notin> set agg_list) summed)"

definition agg_cols :: "string \<Rightarrow> string list \<Rightarrow> ('r, tup, real option) frame \<Rightarrow> ('r, tup, real option) frame" where
  "agg_cols co_name agg_list df = transpose_frame (agg_rows co_name agg_list (transpose_frame df))"

definition sub_regions :: "string \<Rightarrow> string list \<Rightarrow> string list" where
  "sub_regions pre core_co_names =
     filter (\<lambda>a. startswith a pre \<and> length pre < length a \<and> is_digit (a ! length pre)) core_co_names"

text \<open>The body of the loop for one target region, and the loop over \<open>agg_corr\<close>.\<close>

definition agg_step :: "string list \<Rightarrow> string \<times> string list
    \<Rightarrow> io_frame \<times> io_frame \<times> ext_frame \<Rightarrow> io_frame \<times> io_frame \<times> ext_frame" where
  "agg_step core_co_names item T =
     (case (item, T) of ((co_name, agg_list), (Z, Y, F)) \<Rightarrow>
        if co_name \<notin> set core_co_names \<or> length agg_list = 0 then (Z, Y, F)
        else (agg_cols co_name agg_list (agg_rows co_name agg_list Z),
              agg_rows co_name agg_list Y,
              agg_cols co_name agg_list F))"

definition agg_corr :: "string list \<Rightarrow> (string \<times> string list) list" where
  "agg_corr core_co_names =
     [(''CHN'', sub_regions ''CN'' core_co_names), (''MEX'', sub_regions ''MX'' core_co_names)]"

definition aggregate :: "io_frame \<times> io_frame \<times> ext_frame \<Rightarrow> io_frame \<times> io_frame \<times> ext_frame" where
  "aggregate T =
     (case T of (Z, Y, F) \<Rightarrow>
        (let core_co_names = remdups (map region_of (df_columns Z))
         in fold (agg_step core_co_names) (agg_corr core_co_names) (Z, Y, F)))"

subsection \<open>\<open>parse_oecd\<close>\<close>

record oecd_system =
  oecd_Z :: io_frame
  oecd_Y :: io_frame
  oecd_unit :: "(tup \<times> string) list"
  oecd_meta :: meta_data
  oecd_F :: ext_frame
  oecd_F_Y :: ext_frame
  oecd_F_unit :: "(string \<times> string) list"

definition parse_oecd :: "oecd_fs \<Rightarrow> string \<Rightarrow> py_year \<Rightarrow> exn + oecd_system" where
  "parse_oecd fs path year =
     (case oecd_read fs path year of Inl e \<Rightarrow> Inl e
      | Inr t \<Rightarrow>
        (case aggregate (tab_Z t, tab_Y t, tab_F t) of (Z, Y, F) \<Rightarrow>
           Inr \<lparr>oecd_Z = Z, oecd_Y = Y,
                oecd_unit = map (\<lambda>l. (l, ''Million USD'')) (df_index Z),
                oecd_meta = tab_meta t,
                oecd_F = F, oecd_F_Y = tab_F_Y t,
                oecd_F_unit = map (\<lambda>l. (l, ''Million USD'')) (df_index F)\<rparr>))"

text \<open>The sum of all entries of a frame, and the frames without NaN.\<close>

definition frame_total :: "('r, 'c, real option) frame \<Rightarrow> real" where
  "frame_total df = sum_list (map (\<lambda>r. sum_list (map nan0 r)) (df_values df))"

definition no_nan :: "('r, 'c, real option) frame \<Rightarrow> bool" where
  "no_nan df = list_all (list_all (\<lambda>v. v \<noteq> None)) (df_values df)"

definition wf_frame :: "('r, 'c, 'v) frame \<Rightarrow> bool" where
  "wf_frame df = (length (df_values df) = length (df_index df)
                  \<and> list_all (\<lambda>r. length r = length (df_columns df)) (df_values df))"

text \<open>
  The labels are balanced for a target region and its sub-regions when every sector of a
  sub-region is a sector of the target region, listed there once, and every sector of
  the target region is a sector of some sub-region.
\<close>

definition balanced :: "string \<Rightarrow> string list \<Rightarrow> tup list \<Rightarrow> bool" where
  "balanced co agg idx =
     ((\<forall>l\<in>set idx. region_of l \<in> set agg \<longrightarrow>
          length (filter (\<lambda>t. region_of t = co \<and> sector_of t = sector_of l) idx) = 1)
      \<and> (\<forall>t\<in>set idx. region_of t = co \<longrightarrow>
          (\<exists>l\<in>set idx. region_of l \<in> set agg \<and> sector_of l = sector_of t)))"

definition row_total :: "real option list \<Rightarrow> real" where
  "row_total r = sum_list (map nan0 r)"

definition joint :: "io_frame \<times> io_frame \<times> ext_frame \<Rightarrow> bool" where
  "joint T = (case T of (Z, Y, F) \<Rightarrow>
     df_columns Z = df_index Z \<and> df_index Y = df_index Z \<and> df_columns F = df_columns Z)"

text \<open>The labels are balanced for every target region that the loop aggregates.\<close>

definition balanced_regions :: "tup list \<Rightarrow> bool" where
  "balanced_regions idx =
     (let core_co_names = remdups (map region_of idx)
      in list_all (\<lambda>(co_name, agg_list).
           co_name \<in> set core_co_names \<and> agg_list \<noteq> [] \<longrightarrow> balanced co_name agg_list idx)
         (agg_corr core_co_names))"

definition well_formed_files :: "oecd_fs \<Rightarrow> bool" where
  "well_formed_files fs = (\<forall>p csv. oecd_csv fs p = Some csv \<longrightarrow> wf_frame csv)"
section \<open>THEMIS: \<open>themis_parser\<close>\<close>

text \<open>
  The files \<open>themis_parser\<close> reads: Matlab containers (\<open>scipy.io.loadmat\<close>) and the
  label workbook (\<open>pd.read_excel\<close> with \<open>header=0\<close>: a sheet is its columns, each a
  header and the cells below it).  A path that is not in the map does not exist.
\<close>

type_synonym sheet = "(string \<times> string list) list"

record 'm themis_fs =
  mat_files :: "string \<rightharpoonup> 'm"
  xls_files :: "string \<rightharpoonup> sheet list"

definition loadmat :: "'m themis_fs \<Rightarrow> string \<Rightarrow> exn + 'm" where
  "loadmat fs p = (case mat_files fs p of None \<Rightarrow> Inl (FileNotFoundError p) | Some m \<Rightarrow> Inr m)"

definition read_excel :: "'m themis_fs \<Rightarrow> string \<Rightarrow> nat \<Rightarrow> exn + sheet" where
  "read_excel fs p k =
     (case xls_files fs p of
        None \<Rightarrow> Inl (FileNotFoundError p)
      | Some wb \<Rightarrow> if k < length wb then Inr (wb ! k) else Inl IndexError)"

definition getcol :: "sheet \<Rightarrow> string \<Rightarrow> exn + string list" where
  "getcol sh c = (case map_of sh c of None \<Rightarrow> Inl (KeyError c) | Some xs \<Rightarrow> Inr xs)"

text \<open>\<open>idx_region.loc[np.where(idx_region == old)] = new\<close>, one code after the other.\<close>

definition replace_code :: "string \<Rightarrow> string \<Rightarrow> string list \<Rightarrow> string list" where
  "replace_code old new xs = map (\<lambda>x. if x = old then new else x) xs"

definition region_names :: "(string \<times> string) list" where
  "region_names =
     [(''AME'', ''Africa and Middle East''), (''CN'', ''China''),
      (''EIT'', ''Economies in transition''), (''IN'', ''India''),
      (''LA'', ''Latin America''), (''PAC'', ''OECD Pacific''),
      (''US'', ''OECD North America''), (''RER'', ''OECD Europe''),
      (''AS'', ''Rest of developing Asia'')]"

definition rename_regions :: "string list \<Rightarrow> string list" where
  "rename_regions xs = fold (\<lambda>(old, new). replace_code old new) region_names xs"

record themis_labels =
  regions :: "string list"
  idx_regions :: "string list"
  impacts :: "string list"
  idx_impacts :: "string list"
  sectors :: "string list"
  idx_sectors :: "string list"
  caracs :: "string list"
  idx_caracs :: "string list"

text \<open>
  The loading block at the top of \<open>themis_parser\<close>: it runs when one of \<open>themis\<close>,
  \<open>themis_caracs\<close>, \<open>labels\<close> is \<open>None\<close>, and then replaces all three.
\<close>

definition load_labels :: "'m themis_fs \<Rightarrow> string \<Rightarrow> exn + themis_labels" where
  "load_labels fs exio_files =
     (case read_excel fs (exio_files @ ''Data/THEMIS2_labels.xls'') 0 of Inl e \<Rightarrow> Inl e
      | Inr label \<Rightarrow>
     (case getcol label ''Name'' of Inl e \<Rightarrow> Inl e | Inr idx_name \<Rightarrow>
     (case getcol label ''Region'' of Inl e \<Rightarrow> Inl e | Inr idx_region0 \<Rightarrow>
     (let idx_region = rename_regions idx_region0 in
     (case read_excel fs (exio_files @ ''Data/THEMIS2_labels.xls'') 2 of Inl e \<Rightarrow> Inl e
      | Inr label2 \<Rightarrow>
     (case getcol label2 ''FullName'' of Inl e \<Rightarrow> Inl e | Inr idx_impact \<Rightarrow>
     (case read_excel fs (exio_files @ ''Data/THEMIS2_labels.xls'') 3 of Inl e \<Rightarrow> Inl e
      | Inr label3 \<Rightarrow>
     (case getcol label3 ''Abbreviation THEMIS'' of Inl e \<Rightarrow> Inl e | Inr idx_carac \<Rightarrow>
        Inr \<lparr>regions = remdups idx_region, idx_regions = idx_region,
             impacts = remdups idx_impact, idx_impacts = idx_impact,
             sectors = remdups idx_name, idx_sectors = idx_name,
             caracs = remdups idx_carac, idx_caracs = idx_carac\<rparr>))))))))"

definition themis_load ::
  "'m themis_fs \<Rightarrow> string \<Rightarrow> 'm option \<Rightarrow> 'm option \<Rightarrow> themis_labels option
     \<Rightarrow> exn + ('m \<times> 'm \<times> themis_labels)" where
  "themis_load fs exio_files themis themis_caracs labels =
     (case (themis, themis_caracs, labels) of
        (Some t, Some c, Some l) \<Rightarrow> Inr (t, c, l)
      | _ \<Rightarrow>
        (case loadmat fs (exio_files @ ''Data/THEMIS2.mat'') of Inl e \<Rightarrow> Inl e | Inr t \<Rightarrow>
        (case loadmat fs (exio_files @ ''Data/Characterization_endpoint2.mat'') of
           Inl e \<Rightarrow> Inl e | Inr c \<Rightarrow>
        (case load_labels fs exio_files of Inl e \<Rightarrow> Inl e | Inr l \<Rightarrow> Inr (t, c, l)))))"

text \<open>
  What a call returns: \<open>None\<close>, one system, or the dictionary of all scenarios.  The two
  branches that build systems use the \<open>IOSystem\<close> class of \<open>pymrio.core.mriosystem\<close>,
  which is not part of this file; they are the parameters \<open>build_all\<close> and
  \<open>build_one\<close>.  The second component of the result is what has been printed.
\<close>

datatype ('s, 'd) themis_result = PyNone | OneSystem 's | AllSystems 'd

definition themis_parser ::
  "'m themis_fs \<Rightarrow> ('m \<Rightarrow> 'm \<Rightarrow> themis_labels \<Rightarrow> exn + 'd)
     \<Rightarrow> (int \<Rightarrow> string \<Rightarrow> 'm \<Rightarrow> 'm \<Rightarrow> themis_labels \<Rightarrow> exn + 's)
     \<Rightarrow> string \<Rightarrow> int option \<Rightarrow> string option \<Rightarrow> 'm option \<Rightarrow> 'm option
     \<Rightarrow> themis_labels option \<Rightarrow> (exn + ('s, 'd) themis_result) \<times> string list" where
  "themis_parser fs build_all build_one exio_files year scenario themis themis_caracs labels =
     (case themis_load fs exio_files themis themis_caracs labels of
        Inl e \<Rightarrow> (Inl e, [])
      | Inr (t, c, l) \<Rightarrow>
          if year = None \<and> scenario = None then
            (case build_all t c l of Inl e \<Rightarrow> (Inl e, []) | Inr d \<Rightarrow> (Inr (AllSystems d), []))
          else if year = None \<or> scenario = None then
            (Inr PyNone, [''scenario and year must be both given or None''])
          else
            (case build_one (the year) (the scenario) t c l of
               Inl e \<Rightarrow> (Inl e, []) | Inr s \<Rightarrow> (Inr (OneSystem s), [])))"

definition no_files :: "unit themis_fs" where
  "no_files = \<lparr>mat_files = Map.empty, xls_files = Map.empty\<rparr>"

section \<open>Results for the Cecilia transform\<close>

subsection \<open>Arrays given by their entries\<close>


lemma mat_length [simp]: "length (mat m n f) = m"
  by (simp add: mat_def)

lemma mat_nth_row [simp]: "i < m \<Longrightarrow> mat m n f ! i = map (f i) [0..<n]"
  by (simp add: mat_def)

lemma mat_nth: "i < m \<Longrightarrow> j < n \<Longrightarrow> mat m n f ! i ! j = f i j"
  by simp


lemma is_matrix_mat [simp]: "is_matrix m n (mat m n f)"
  by (simp add: is_matrix_def mat_def list_all_iff)

lemma is_matrix_eq_mat: "is_matrix m n M \<Longrightarrow> M = mat m n (\<lambda>i j. M ! i ! j)"
  by (auto simp: is_matrix_def mat_def list_all_iff intro!: nth_equalityI)

lemma ncols_mat [simp]: "0 < m \<Longrightarrow> ncols (mat m n f) = n"
  by (simp add: ncols_def mat_def upt_conv_Cons)

lemma col_mat [simp]: "j < n \<Longrightarrow> col (mat m n f) j = map (\<lambda>i. f i j) [0..<m]"
  by (simp add: col_def mat_def)

lemma map_mat: "map F (mat m n f) = map (\<lambda>i. F (map (f i) [0..<n])) [0..<m]"
  by (simp add: mat_def comp_def)

lemma dot1_map: "dot1 (map f [0..<n]) (map g [0..<n]) = (\<Sum>k<n. f k * g k)"
  by (simp add: dot1_def zip_map_map sum_list_sum_nth atLeast0LessThan map2_map_map)

lemma sum_list_map_upt: "sum_list (map f [0..<n]) = (\<Sum>k<n. f k)"
  by (simp add: sum_list_sum_nth atLeast0LessThan)

lemma np_dot_mat:
  "0 < a \<Longrightarrow> 0 < b \<Longrightarrow> np_dot (mat a b f) (mat b c g) = Inr (mat a c (\<lambda>i j. \<Sum>k<b. f i k * g k j))"
  by (simp add: np_dot_def map_mat dot1_map mat_def [of a c] cong: map_cong)

lemma sum_axis1_mat: "sum_axis1 (mat m n f) = map (\<lambda>i. \<Sum>j<n. f i j) [0..<m]"
  by (simp add: sum_axis1_def mat_def sum_list_map_upt)

lemma sum_axis0_mat: "0 < m \<Longrightarrow> sum_axis0 (mat m n f) = map (\<lambda>j. \<Sum>i<m. f i j) [0..<n]"
  by (simp add: sum_axis0_def sum_list_map_upt)

lemma np_diag_map: "np_diag (map h [0..<n]) = mat n n (\<lambda>i j. if i = j then h i else 0)"
  by (simp add: np_diag_def mat_def)

lemma np_ones_mat: "np_ones m n = mat m n (\<lambda>i j. 1)"
  by (simp add: np_ones_def mat_def map_replicate_const)

lemma np_eye_mat: "np_eye n = mat n n (\<lambda>i j. if i = j then 1 else 0)"
  by (simp add: np_eye_def mat_def)

lemma np_transpose_mat: "0 < m \<Longrightarrow> np_transpose (mat m n f) = mat n m (\<lambda>i j. f j i)"
  by (simp add: np_transpose_def mat_def [of n m] cong: map_cong)

lemma bcast_same [simp]: "length xs = n \<Longrightarrow> bcast n xs = xs"
  by (auto simp: bcast_def)

lemma np_mat2_mat:
  "0 < m \<Longrightarrow> np_mat2 h (mat m n f) (mat m n g) = Inr (mat m n (\<lambda>i j. h (f i j) (g i j)))"
  by (simp add: np_mat2_def fits_def bc_len_def)
     (auto simp: mat_def map2_map_map zip_map_map intro!: nth_equalityI)

lemma IOT_pxp_mat:
  assumes "0 < m" "0 < n"
  shows "IOT_from_SUT (mat m n s) (mat n m u) ''pxp''
          = Inr (Some (mat n n (\<lambda>j k. \<Sum>i<m. u k i * div0 (s i j) (\<Sum>l<n. s i l))))"
  using assms
  by (simp add: IOT_from_SUT_def sum_axis1_mat np_diag_map np_ones_mat np_dot_mat
      np_mat2_mat np_transpose_mat if_distrib [of "\<lambda>x. x * _"] sum.delta cong: if_cong)

lemma IOT_ixi_mat:
  assumes "0 < m" "0 < n"
  shows "IOT_from_SUT (mat m n s) (mat n m u) ''ixi''
          = Inr (Some (mat m m (\<lambda>i k. \<Sum>j<n. div0 (s i j) (\<Sum>l<m. s l j) * u j k)))"
  using assms
  by (simp add: IOT_from_SUT_def sum_axis0_mat np_diag_map np_ones_mat np_dot_mat
      np_mat2_mat np_transpose_mat if_distrib [of "\<lambda>x. _ * x"] sum.delta cong: if_cong)

subsection \<open>The two conventions of \<open>IOT_from_SUT\<close>\<close>

text \<open>
  C2.  For a supply table \<open>S\<close> (\<open>m\<close> industries by \<open>n\<close> products) and a use table \<open>U\<close>
  (\<open>n\<close> products by \<open>m\<close> industries), \<open>IOT_from_SUT\<close> with \<open>'pxp'\<close> returns
  \<open>transpose(U \<cdot> (S / (diag(rowsum S) \<cdot> ones)))\<close>, the \<open>n\<close> by \<open>n\<close> table whose entry
  \<open>(j, k)\<close> is the sum over the industries \<open>i\<close> of \<open>U k i\<close> times the zero-safe ratio of
  \<open>S i j\<close> to the row sum of \<open>S\<close> at \<open>i\<close>; with \<open>'ixi'\<close> it returns
  \<open>(S / (ones \<cdot> diag(colsum S))) \<cdot> U\<close>, the \<open>m\<close> by \<open>m\<close> table whose entry \<open>(i, k)\<close> is
  the sum over the products \<open>j\<close> of the zero-safe ratio of \<open>S i j\<close> to the column sum of
  \<open>S\<close> at \<open>j\<close>, times \<open>U j k\<close>.
\<close>

theorem IOT_from_SUT_formulas:
  assumes S: "is_matrix m n S" and U: "is_matrix n m U" and pos: "0 < m" "0 < n"
  shows "IOT_from_SUT S U ''pxp''
           = Inr (Some (mat n n (\<lambda>j k. \<Sum>i<m. U ! k ! i * div0 (S ! i ! j) (\<Sum>l<n. S ! i ! l))))
       \<and> IOT_from_SUT S U ''ixi''
           = Inr (Some (mat m m (\<lambda>i k. \<Sum>j<n. div0 (S ! i ! j) (\<Sum>l<m. S ! l ! j) * U ! j ! k)))"
proof -
  have "IOT_from_SUT (mat m n (\<lambda>i j. S ! i ! j)) (mat n m (\<lambda>i j. U ! i ! j)) ''pxp''
          = Inr (Some (mat n n (\<lambda>j k. \<Sum>i<m. U ! k ! i * div0 (S ! i ! j) (\<Sum>l<n. S ! i ! l))))"
    by (rule IOT_pxp_mat [OF pos])
  moreover
  have "IOT_from_SUT (mat m n (\<lambda>i j. S ! i ! j)) (mat n m (\<lambda>i j. U ! i ! j)) ''ixi''
          = Inr (Some (mat m m (\<lambda>i k. \<Sum>j<n. div0 (S ! i ! j) (\<Sum>l<m. S ! l ! j) * U ! j ! k)))"
    by (rule IOT_ixi_mat [OF pos])
  ultimately show ?thesis
    using is_matrix_eq_mat [OF S, symmetric] is_matrix_eq_mat [OF U, symmetric] by simp
qed

theorem IOT_from_SUT_formulas_witness:
  "is_matrix 2 2 small_S \<and> is_matrix 2 2 small_U
     \<and> IOT_from_SUT small_S small_U ''pxp'' = Inr (Some [[1 / 2, 3 / 2], [1 / 2, 3 / 2]])
     \<and> IOT_from_SUT small_S small_U ''ixi'' = Inr (Some [[4, 6], [0, 0]])"
proof -
  have S: "is_matrix 2 2 small_S" and U: "is_matrix 2 2 small_U"
    by (simp_all add: is_matrix_def small_S_def small_U_def)
  have pxp: "mat 2 2 (\<lambda>j k. \<Sum>i<2. small_U ! k ! i
               * div0 (small_S ! i ! j) (\<Sum>l<2. small_S ! i ! l)) = [[1 / 2, 3 / 2], [1 / 2, 3 / 2]]"
    by code_simp
  have ixi: "mat 2 2 (\<lambda>i k. \<Sum>j<2. div0 (small_S ! i ! j) (\<Sum>l<2. small_S ! l ! j)
               * small_U ! j ! k) = [[4, 6], [0, 0]]"
    by code_simp
  show ?thesis
    using IOT_from_SUT_formulas [OF S U] S U by (simp add: pxp ixi)
qed

subsection \<open>Zero denominators\<close>


lemma div0_zero [simp]: "div0 a 0 = 0"
  by (simp add: div0_def true_divide_def)

lemma div0_zero_left [simp]: "div0 0 b = 0"
  by (simp add: div0_def true_divide_def)









subsection \<open>Gauss-Jordan elimination inverts exactly the non-singular arrays\<close>






lemma shape_nth: "shape n w R \<Longrightarrow> i < n \<Longrightarrow> length (R ! i) = w"
  by (simp add: shape_def)



lemma length_eliminate [simp]: "length (eliminate R k) = length R"
  by (simp add: eliminate_def Let_def)



















lemma dot1_zeros [simp]: "dot1 r (replicate n 0) = 0"
proof (induction r arbitrary: n)
  case Nil
  then show ?case by (simp add: dot1_def)
next
  case (Cons a r)
  then show ?case by (cases n) (simp_all add: dot1_def)
qed







subsection \<open>Which exceptions \<open>load_system\<close> raises\<close>










lemma np_linalg_inv_error: "np_linalg_inv M = Inl e \<Longrightarrow> is_linalg e"
  by (auto simp: np_linalg_inv_def is_linalg_def split: if_splits option.splits)






subsection \<open>The Leontief inverse\<close>










section \<open>Results for the EXIOBASE file location\<close>

lemma locate_files_eq:
  assumes sn: "\<And>f z. \<exists>fp. sniff_csv_format env f z = Inr fp"
  shows "locate_files env path rc tabs files0 lg0
           = (Inr (files0 @ located env path rc tabs), lg0 @ logged rc tabs)"
proof (induction tabs arbitrary: files0 lg0)
  case Nil
  then show ?case by (simp add: located_def logged_def)
next
  case (Cons t tabs)
  obtain kk vv where t: "t = (kk, vv)" by (cases t)
  let ?found = "filter (re_search vv) (filelist rc)"
  consider "length ?found > 1" | "length ?found = 0" | "length ?found = 1"
    by linarith
  then show ?case
  proof cases
    case 1
    then show ?thesis
      using Cons.IH by (simp add: t located_def logged_def found_for_def)
  next
    case 2
    then show ?thesis
      using Cons.IH by (simp add: t located_def logged_def found_for_def)
  next
    case 3
    obtain fp where fp: "(if iszip rc then sniff_csv_format env (?found ! 0) (Some path)
               else sniff_csv_format env (join_path path (?found ! 0)) None) = Inr fp"
      using sn by (metis (full_types))
    show ?thesis
      using 3 Cons.IH fp
      by (simp add: t located_def logged_def found_for_def entry_for_def Let_def)
  qed
qed

lemma distinct_tables: "distinct (map fst (exio_core_regex c))"
  by (simp add: exio_core_regex_def)

lemma located_keys:
  "map fst (located env path rc tabs)
     = map fst (filter (\<lambda>(kk, vv). length (found_for rc vv) = 1) tabs)"
  by (induction tabs) (auto simp: located_def)

lemma located_entry:
  "(kk, vv) \<in> set tabs \<Longrightarrow> found_for rc vv = [f]
     \<Longrightarrow> (kk, entry_for env path rc f) \<in> set (located env path rc tabs)"
  by (induction tabs) (auto simp: located_def)

lemma located_absent:
  assumes "distinct (map fst tabs)" and "(kk, vv) \<in> set tabs" and "length (found_for rc vv) \<noteq> 1"
  shows "kk \<notin> fst ` set (located env path rc tabs)"
proof -
  have "fst ` set (located env path rc tabs)
      = fst ` set (filter (\<lambda>(kk, vv). length (found_for rc vv) = 1) tabs)"
    using located_keys [of env path rc tabs] by (metis set_map)
  moreover have "kk \<notin> fst ` set (filter (\<lambda>(kk, vv). length (found_for rc vv) = 1) tabs)"
    using assms by (auto dest: eq_key_imp_eq_value)
  ultimately show ?thesis by simp
qed

lemma logged_warning:
  assumes "distinct (map fst tabs)" and "(kk, vv) \<in> set tabs" and "length (found_for rc vv) > 1"
  shows "count_list (logged rc tabs) (WarnMultipleFiles kk (found_for rc vv)) = 1"
  using assms
proof (induction tabs)
  case Nil
  then show ?case by simp
next
  case (Cons t tabs)
  obtain k v where t: "t = (k, v)" by (cases t)
  have none: "count_list (logged rc tabs) (WarnMultipleFiles k fs) = 0" if "k \<notin> fst ` set tabs" for fs
    using that by (induction tabs) (auto simp: logged_def)
  show ?case
  proof (cases "(kk, vv) = t")
    case True
    then show ?thesis
      using Cons.prems none [of "found_for rc vv"] t
      by (simp add: logged_def)
  next
    case False
    then have "count_list (logged rc tabs) (WarnMultipleFiles kk (found_for rc vv)) = 1"
      using Cons by auto
    moreover have "k \<noteq> kk"
      using False Cons.prems t by (auto simp: image_iff)
    ultimately show ?thesis
      by (simp add: logged_def t)
  qed
qed


text \<open>
  C7, as stated, at a folder that holds the interindustry table and no final demand table:
  no error is signalled, neither by \<open>get_exiobase_files\<close> nor by the check in
  \<open>parse_exiobase1\<close>, and the parser is handed the table \<open>A\<close> alone.  And at a folder with
  two candidates for the interindustry table: the warning is logged, but the table is left
  out instead of being read from the first candidate.
\<close>

theorem missing_table_not_signalled:
  "get_exiobase_files (folder_env [''mrIot_version2.2.2.txt'']) ''/data/exio_pxp'' True
     = (Inr [(''A'', \<lparr>root_repo = ''/data/exio_pxp'', file_path = ''mrIot_version2.2.2.txt'',
                      version = None, index_rows = 2, index_col = 3, unit_col = 2,
                      file_sep = [CHR 0x09]\<rparr>)],
        [DebugProcessFile ''mrIot_version2.2.2.txt''])
   \<and> parse_exiobase1 (folder_env [''mrIot_version2.2.2.txt'']) handed_tables ''/data/exio_pxp''
     = (Inr [''A''], [DebugProcessFile ''mrIot_version2.2.2.txt''])
   \<and> parse_exiobase1 (folder_env [''mrIot_v1.txt'', ''mrIot_v2.txt'', ''mrFinalDemand_v2.txt''])
         handed_tables ''/data/exio_pxp''
     = (Inr [''Y''], [WarnMultipleFiles ''A'' [''mrIot_v1.txt'', ''mrIot_v2.txt''],
                      DebugProcessFile ''mrFinalDemand_v2.txt''])"
proof -
  have a: "get_exiobase_files (folder_env [''mrIot_version2.2.2.txt'']) ''/data/exio_pxp'' True
     = (Inr [(''A'', \<lparr>root_repo = ''/data/exio_pxp'', file_path = ''mrIot_version2.2.2.txt'',
                      version = None, index_rows = 2, index_col = 3, unit_col = 2,
                      file_sep = [CHR 0x09]\<rparr>)],
        [DebugProcessFile ''mrIot_version2.2.2.txt''])"
    by code_simp
  have b: "parse_exiobase1 (folder_env [''mrIot_version2.2.2.txt'']) handed_tables ''/data/exio_pxp''
     = (Inr [''A''], [DebugProcessFile ''mrIot_version2.2.2.txt''])"
    by code_simp
  have c: "parse_exiobase1 (folder_env [''mrIot_v1.txt'', ''mrIot_v2.txt'', ''mrFinalDemand_v2.txt''])
         handed_tables ''/data/exio_pxp''
     = (Inr [''Y''], [WarnMultipleFiles ''A'' [''mrIot_v1.txt'', ''mrIot_v2.txt''],
                      DebugProcessFile ''mrFinalDemand_v2.txt''])"
    by code_simp
  from a b c show ?thesis
    by (intro conjI)
qed

text \<open>
  C7, amended.  When the folder can be listed and the format of a file can be sniffed,
  \<open>get_exiobase_files\<close> does not fail: a table whose pattern matches several files
  gives exactly one warning of the \<open>logging\<close> module that lists the candidates, a table
  whose pattern matches no file is left out of the result without any error, and a table
  with exactly one match is registered with that file.  \<open>parse_exiobase1\<close> raises its
  \<open>ParserError\<close> when no table at all was located, and otherwise hands the located
  files to the parser.
\<close>

theorem get_exiobase_files_lenient:
  assumes repo: "get_repo_content env path = Inr rc"
    and sn: "\<forall>f z. \<exists>fp. sniff_csv_format env f z = Inr fp"
    and tab: "(kk, vv) \<in> set (exio_core_regex c)"
  shows "\<exists>files lg. get_exiobase_files env path c = (Inr files, lg)
        \<and> (found_for rc vv = [] \<longrightarrow> kk \<notin> fst ` set files)
        \<and> (\<forall>f. found_for rc vv = [f] \<longrightarrow> (kk, entry_for env path rc f) \<in> set files)
        \<and> (length (found_for rc vv) > 1
             \<longrightarrow> count_list lg (WarnMultipleFiles kk (found_for rc vv)) = 1)
        \<and> (c \<longrightarrow> parse_exiobase1 env parser path =
              (if files = []
               then (Inl (ParserError (''No EXIOBASE files found at '' @ path)), lg)
               else (parser files (get_MRIO_system path),
                     if get_MRIO_system path = None then lg @ [WarnNoSystem] else lg)))"
proof -
  let ?files = "located env path rc (exio_core_regex c)" and ?lg = "logged rc (exio_core_regex c)"
  have g: "get_exiobase_files env path c = (Inr ?files, ?lg)"
    using locate_files_eq [of env path rc "exio_core_regex c" "[]" "[]"] sn repo
    by (simp add: get_exiobase_files_def)
  have "found_for rc vv = [] \<longrightarrow> kk \<notin> fst ` set ?files"
    using located_absent [OF distinct_tables tab, of rc env path] by simp
  moreover have "\<forall>f. found_for rc vv = [f] \<longrightarrow> (kk, entry_for env path rc f) \<in> set ?files"
    using located_entry [OF tab] by blast
  moreover have "length (found_for rc vv) > 1
             \<longrightarrow> count_list ?lg (WarnMultipleFiles kk (found_for rc vv)) = 1"
    using logged_warning [OF distinct_tables tab] by blast
  moreover have "c \<longrightarrow> parse_exiobase1 env parser path =
              (if ?files = []
               then (Inl (ParserError (''No EXIOBASE files found at '' @ path)), ?lg)
               else (parser ?files (get_MRIO_system path),
                     if get_MRIO_system path = None then ?lg @ [WarnNoSystem] else ?lg))"
    using g by (auto simp: parse_exiobase1_def Let_def)
  ultimately show ?thesis
    using g by blast
qed

theorem get_exiobase_files_lenient_witness:
  "get_repo_content (folder_env [''mrIot_v1.txt'', ''mrIot_v2.txt'', ''mrFinalDemand_v2.txt''])
       ''/data/exio_pxp''
     = Inr \<lparr>iszip = False, filelist = [''mrIot_v1.txt'', ''mrIot_v2.txt'', ''mrFinalDemand_v2.txt'']\<rparr>
   \<and> (''A'', ''mrIot'') \<in> set (exio_core_regex True)
   \<and> (\<exists>files lg.
         get_exiobase_files (folder_env [''mrIot_v1.txt'', ''mrIot_v2.txt'', ''mrFinalDemand_v2.txt''])
             ''/data/exio_pxp'' True = (Inr files, lg)
         \<and> count_list lg (WarnMultipleFiles ''A'' [''mrIot_v1.txt'', ''mrIot_v2.txt'']) = 1)"
proof -
  let ?fl = "[''mrIot_v1.txt'', ''mrIot_v2.txt'', ''mrFinalDemand_v2.txt'']"
  let ?rc = "\<lparr>iszip = False, filelist = ?fl\<rparr>"
  have repo: "get_repo_content (folder_env ?fl) ''/data/exio_pxp'' = Inr ?rc"
    by (simp add: folder_env_def)
  have sn: "\<forall>f z. \<exists>fp. sniff_csv_format (folder_env ?fl) f z = Inr fp"
    by (simp add: folder_env_def)
  have tab: "(''A'', ''mrIot'') \<in> set (exio_core_regex True)"
    by (simp add: exio_core_regex_def)
  have found: "found_for ?rc ''mrIot'' = [''mrIot_v1.txt'', ''mrIot_v2.txt'']"
    by code_simp
  from get_exiobase_files_lenient [OF repo sn tab, of handed_tables] found repo tab
  show ?thesis
    by auto
qed

section \<open>Results for \<open>parse_oecd\<close>\<close>

subsection \<open>Labels of the tables\<close>

lemma map_nth_positions: "map (nth xs) (positions P xs) = filter P xs"
proof -
  have "map (nth xs) (filter (\<lambda>j. P (xs ! j)) [0..<length xs]) = filter P (map (nth xs) [0..<length xs])"
    by (simp add: filter_map comp_def)
  then show ?thesis
    by (simp add: positions_def map_nth)
qed

lemma df_index_filter_rows [simp]: "df_index (filter_rows P df) = filter P (df_index df)"
  by (simp add: filter_rows_def take_rows_def map_nth_positions)

lemma df_columns_filter_rows [simp]: "df_columns (filter_rows P df) = df_columns df"
  by (simp add: filter_rows_def take_rows_def)

lemma df_index_transpose [simp]: "df_index (transpose_frame df) = df_columns df"
  by (simp add: transpose_frame_def)

lemma df_columns_transpose [simp]: "df_columns (transpose_frame df) = df_index df"
  by (simp add: transpose_frame_def)

lemma df_index_agg_rows [simp]:
  "df_index (agg_rows co agg df) = filter (\<lambda>l. region_of l \<notin> set agg) (df_index df)"
  by (simp add: agg_rows_def Let_def)

lemma df_columns_agg_rows [simp]: "df_columns (agg_rows co agg df) = df_columns df"
  by (simp add: agg_rows_def Let_def)

lemma df_columns_agg_cols [simp]:
  "df_columns (agg_cols co agg df) = filter (\<lambda>l. region_of l \<notin> set agg) (df_columns df)"
  by (simp add: agg_cols_def)

lemma df_index_agg_cols [simp]: "df_index (agg_cols co agg df) = df_index df"
  by (simp add: agg_cols_def)

lemma joint_agg_step: "joint T \<Longrightarrow> joint (agg_step core item T)"
  by (cases T; cases item) (auto simp: joint_def agg_step_def)

lemma joint_fold: "joint T \<Longrightarrow> joint (fold (agg_step core) items T)"
  by (induction items arbitrary: T) (simp_all add: joint_agg_step)

lemma joint_aggregate: "joint T \<Longrightarrow> joint (aggregate T)"
  by (cases T) (simp add: aggregate_def Let_def joint_fold)

lemma set_index_labels_Inr:
  "set_index_labels ls df = Inr df' \<Longrightarrow>
     df_index df' = ls \<and> df_columns df' = df_columns df \<and> df_values df' = df_values df"
  by (auto simp: set_index_labels_def split: if_splits)

lemma set_columns_labels_Inr:
  "set_columns_labels ls df = Inr df' \<Longrightarrow>
     df_columns df' = ls \<and> df_index df' = df_index df \<and> df_values df' = df_values df"
  by (auto simp: set_columns_labels_def split: if_splits)

lemma oecd_read_joint:
  assumes "oecd_read fs path year = Inr t"
  shows "joint (tab_Z t, tab_Y t, tab_F t)"
  using assms unfolding oecd_read_def Let_def
  by (auto simp: joint_def split: sum.splits option.splits prod.splits
      dest!: set_index_labels_Inr set_columns_labels_Inr)

lemma parse_oecd_joint_index:
  assumes "parse_oecd fs path year = Inr sys"
  shows "df_columns (oecd_Z sys) = df_index (oecd_Z sys)
       \<and> df_index (oecd_Y sys) = df_index (oecd_Z sys)
       \<and> df_columns (oecd_F sys) = df_columns (oecd_Z sys)"
proof -
  from assms obtain t Z Y F where t: "oecd_read fs path year = Inr t"
    and a: "aggregate (tab_Z t, tab_Y t, tab_F t) = (Z, Y, F)"
    and s: "oecd_Z sys = Z" "oecd_Y sys = Y" "oecd_F sys = F"
    by (auto simp: parse_oecd_def split: sum.splits prod.splits)
  from joint_aggregate [OF oecd_read_joint [OF t]] a s show ?thesis
    by (simp add: joint_def)
qed


subsection \<open>The aggregation keeps the sum of all entries\<close>

lemma sum_list_if_filter:
  fixes g :: "'a \<Rightarrow> real"
  shows "sum_list (map g (filter P xs)) = sum_list (map (\<lambda>x. if P x then g x else 0) xs)"
  by (induction xs) simp_all

lemma sum_list_count:
  fixes c :: real
  shows "sum_list (map (\<lambda>t. if Q t then c else 0) ts) = c * real (length (filter Q ts))"
  by (induction ts) (simp_all add: algebra_simps)

lemma double_count:
  fixes g :: "'b \<Rightarrow> real"
  assumes "\<forall>s\<in>set subs. length (filter (\<lambda>t. Q t s) ts) = 1"
  shows "sum_list (map (\<lambda>t. sum_list (map g (filter (Q t) subs))) ts) = sum_list (map g subs)"
  using assms
proof (induction subs)
  case Nil
  then show ?case by simp
next
  case (Cons s subs)
  have "sum_list (map (\<lambda>t. sum_list (map g (filter (Q t) (s # subs)))) ts)
      = sum_list (map (\<lambda>t. (if Q t s then g s else 0) + sum_list (map g (filter (Q t) subs))) ts)"
    by (intro arg_cong [where f = sum_list] map_cong) auto
  also have "\<dots> = sum_list (map (\<lambda>t. if Q t s then g s else 0) ts)
                   + sum_list (map (\<lambda>t. sum_list (map g (filter (Q t) subs))) ts)"
    by (simp add: sum_list_addf)
  also have "sum_list (map (\<lambda>t. if Q t s then g s else 0) ts) = g s"
    using Cons.prems by (simp add: sum_list_count)
  finally show ?case
    using Cons by simp
qed

lemma row_total_nth: "row_total r = (\<Sum>j<length r. nan0 (r ! j))"
  by (simp add: row_total_def sum_list_sum_nth atLeast0LessThan)

lemma group_sum_total:
  assumes "\<forall>r'\<in>set grp. length r' = w"
  shows "(\<Sum>j<w. sum_list (map (\<lambda>r'. nan0 (r' ! j)) grp)) = sum_list (map row_total grp)"
  using assms
proof (induction grp)
  case Nil
  then show ?case by simp
next
  case (Cons x xs)
  then show ?case
    by (simp add: sum.distrib row_total_nth)
qed

lemma row_add_group:
  assumes r: "length r = w" and grp: "\<forall>r'\<in>set grp. length r' = w"
    and nn: "list_all (\<lambda>v. v \<noteq> None) r"
  shows "row_total (map2 vadd r (group_sum w grp)) = row_total r + sum_list (map row_total grp)"
    and "list_all (\<lambda>v. v \<noteq> None) (map2 vadd r (group_sum w grp))"
    and "length (map2 vadd r (group_sum w grp)) = w"
proof -
  have lg: "length (group_sum w grp) = w"
    by (simp add: group_sum_def)
  have some: "\<And>j. j < w \<Longrightarrow> \<exists>a. r ! j = Some a"
    using nn r by (auto simp: list_all_length)
  have entry: "nan0 (map2 vadd r (group_sum w grp) ! j)
      = nan0 (r ! j) + sum_list (map (\<lambda>r'. nan0 (r' ! j)) grp)" if "j < w" for j
    using that r some [OF that] by (auto simp: group_sum_def vadd_def nan0_def)
  have "row_total (map2 vadd r (group_sum w grp))
      = (\<Sum>j<w. nan0 (r ! j) + sum_list (map (\<lambda>r'. nan0 (r' ! j)) grp))"
    using r lg entry by (simp add: row_total_nth)
  also have "\<dots> = row_total r + sum_list (map row_total grp)"
    using r by (simp add: sum.distrib group_sum_total [OF grp] row_total_nth)
  finally show "row_total (map2 vadd r (group_sum w grp)) = row_total r + sum_list (map row_total grp)" .
  show "list_all (\<lambda>v. v \<noteq> None) (map2 vadd r (group_sum w grp))"
    using r lg some by (fastforce simp: list_all_length group_sum_def vadd_def)
  show "length (map2 vadd r (group_sum w grp)) = w"
    using r lg by simp
qed


lemma zip_as_map:
  "length xs = length ys \<Longrightarrow> zip xs ys = map (\<lambda>j. (xs ! j, ys ! j)) [0..<length xs]"
  by (auto intro!: nth_equalityI)

lemma filter_rows_values:
  assumes "length (df_values df) = length (df_index df)"
  shows "df_values (filter_rows P df)
           = map snd (filter (\<lambda>(l, r). P l) (zip (df_index df) (df_values df)))"
proof -
  have "map snd (filter (\<lambda>(l, r). P l) (zip (df_index df) (df_values df)))
      = map snd (map (\<lambda>j. (df_index df ! j, df_values df ! j))
          (filter (\<lambda>j. P (df_index df ! j)) [0..<length (df_index df)]))"
    using assms by (simp add: zip_as_map filter_map comp_def)
  then show ?thesis
    by (simp add: filter_rows_def take_rows_def positions_def comp_def)
qed

lemma length_filter_zip:
  "length xs = length ys \<Longrightarrow> length (filter (\<lambda>(l, r). P l) (zip xs ys)) = length (filter P xs)"
proof (induction xs ys rule: list_induct2)
  case Nil
  then show ?case by simp
next
  case (Cons x xs y ys)
  then show ?case by simp
qed

lemma in_zip_fst:
  "length xs = length ys \<Longrightarrow> l \<in> set xs \<Longrightarrow> \<exists>r. (l, r) \<in> set (zip xs ys)"
  by (metis in_set_impl_in_set_zip1)

lemma frame_total_zip:
  assumes a: "length (df_values df) = length (df_index df)"
  shows "frame_total df = sum_list (map (\<lambda>(l, r). row_total r) (zip (df_index df) (df_values df)))"
proof -
  have "map (\<lambda>(l, r). row_total r) (zip (df_index df) (df_values df))
      = map row_total (map snd (zip (df_index df) (df_values df)))"
    by (simp add: case_prod_unfold)
  also have "\<dots> = map row_total (df_values df)"
    using a by simp
  finally have "map (\<lambda>(l, r). row_total r) (zip (df_index df) (df_values df))
      = map row_total (df_values df)" .
  moreover have "frame_total df = sum_list (map row_total (df_values df))"
    unfolding frame_total_def row_total_def by (rule refl)
  ultimately show ?thesis
    by simp
qed


lemma agg_rows_facts:
  fixes df :: "(tup, 'c, real option) frame"
  assumes wf: "wf_frame df" and nn: "no_nan df" and bal: "balanced co agg (df_index df)"
    and co: "co \<notin> set agg"
  shows "frame_total (agg_rows co agg df) = frame_total df"
    and "no_nan (agg_rows co agg df)"
    and "wf_frame (agg_rows co agg df)"
proof -
  let ?idx = "df_index df" and ?vals = "df_values df"
  define w where "w = length (df_columns df)"
  define rows where "rows = zip ?idx ?vals"
  define keep where "keep = (\<lambda>l. region_of l \<notin> set agg)"
  define sub where "sub = filter (\<lambda>(l, r). region_of l \<in> set agg) rows"
  define grp where "grp = (\<lambda>l. map snd (filter (\<lambda>(l', r'). sector_of l' = sector_of l) sub))"
  define new_row where "new_row = (\<lambda>(l, r :: real option list).
      if region_of l = co then
        (if grp l = [] then map (\<lambda>v. None) r else map2 vadd r (group_sum (length r) (grp l)))
      else r)"
  have len: "length ?vals = length ?idx"
    using wf by (simp add: wf_frame_def)
  have roww: "\<And>l r. (l, r) \<in> set rows \<Longrightarrow> length r = w"
    using wf by (auto simp: wf_frame_def rows_def w_def list_all_iff dest: set_zip_rightD)
  have rownn: "\<And>l r. (l, r) \<in> set rows \<Longrightarrow> list_all (\<lambda>v. v \<noteq> None) r"
    using nn by (auto simp: no_nan_def rows_def list_all_iff dest: set_zip_rightD)
  have rowidx: "\<And>l r. (l, r) \<in> set rows \<Longrightarrow> l \<in> set ?idx"
    by (auto simp: rows_def dest: set_zip_leftD)
  have grpw: "\<And>l r'. r' \<in> set (grp l) \<Longrightarrow> length r' = w"
    using roww by (auto simp: grp_def sub_def)
  have grp_ne: "grp l \<noteq> []" if "(l, r) \<in> set rows" "region_of l = co" for l r
  proof -
    from bal rowidx [OF that(1)] that(2)
    obtain l' where l': "l' \<in> set ?idx" "region_of l' \<in> set agg" "sector_of l' = sector_of l"
      by (auto simp: balanced_def)
    from in_zip_fst [OF len [symmetric] l'(1)] obtain r' where "(l', r') \<in> set rows"
      by (auto simp: rows_def)
    then have "r' \<in> set (grp l)"
      using l' by (force simp: grp_def sub_def)
    then show ?thesis by auto
  qed
  have new: "row_total (new_row (l, r))
        = row_total r + (if region_of l = co then sum_list (map row_total (grp l)) else 0)
      \<and> list_all (\<lambda>v. v \<noteq> None) (new_row (l, r)) \<and> length (new_row (l, r)) = w"
    if lr: "(l, r) \<in> set rows" for l r
  proof (cases "region_of l = co")
    case True
    note g = row_add_group [OF roww [OF lr] _ rownn [OF lr], of "grp l"]
    show ?thesis
      using True grp_ne [OF lr True] g grpw roww [OF lr] by (simp add: new_row_def)
  next
    case False
    then show ?thesis
      using roww [OF lr] rownn [OF lr] by (simp add: new_row_def)
  qed
  have res: "agg_rows co agg df = filter_rows keep (df\<lparr>df_values := map new_row rows\<rparr>)"
    unfolding agg_rows_def Let_def rows_def keep_def sub_def grp_def new_row_def
    by (simp add: rows_def sub_def)
  have zipnew: "zip ?idx (map new_row rows) = map (\<lambda>(l, r). (l, new_row (l, r))) rows"
    using len unfolding rows_def by (auto intro!: nth_equalityI)
  have vals: "df_values (agg_rows co agg df)
      = map snd (filter (\<lambda>(l, r). keep l) (map (\<lambda>(l, r). (l, new_row (l, r))) rows))"
    unfolding res using len zipnew
    by (subst filter_rows_values) (simp_all add: rows_def)
  have vals': "df_values (agg_rows co agg df)
      = map new_row (filter (\<lambda>(l, r). keep l) rows)"
    unfolding vals by (induction rows) auto
  show "no_nan (agg_rows co agg df)"
    unfolding no_nan_def vals' using new by (auto simp: list_all_iff)
  show "wf_frame (agg_rows co agg df)"
    unfolding wf_frame_def vals'
    using new len
    by (auto simp: list_all_iff w_def rows_def length_filter_zip keep_def)
  have "frame_total (agg_rows co agg df)
      = sum_list (map (\<lambda>(l, r). row_total (new_row (l, r))) (filter (\<lambda>(l, r). keep l) rows))"
    unfolding frame_total_def vals' row_total_def [symmetric] by (simp add: comp_def case_prod_unfold)
  also have "\<dots> = sum_list (map (\<lambda>(l, r). if keep l then row_total (new_row (l, r)) else 0) rows)"
    by (induction rows) auto
  also have "\<dots> = sum_list (map (\<lambda>(l, r). (if keep l then row_total r else 0)
        + (if region_of l = co then sum_list (map row_total (grp l)) else 0)) rows)"
  proof (intro arg_cong [where f = sum_list] map_cong refl)
    fix x assume x: "x \<in> set rows"
    obtain l r where lr: "x = (l, r)" by (cases x)
    have "region_of l = co \<Longrightarrow> keep l"
      using co by (auto simp: keep_def)
    then show "(case x of (l, r) \<Rightarrow> if keep l then row_total (new_row (l, r)) else 0)
        = (case x of (l, r) \<Rightarrow> (if keep l then row_total r else 0)
            + (if region_of l = co then sum_list (map row_total (grp l)) else 0))"
      using new [of l r] x lr by auto
  qed
  also have "\<dots> = sum_list (map (\<lambda>(l, r). if keep l then row_total r else 0) rows)
      + sum_list (map (\<lambda>(l, r). if region_of l = co then sum_list (map row_total (grp l)) else 0) rows)"
    by (simp add: sum_list_addf case_prod_unfold)
  also have "sum_list (map (\<lambda>(l, r). if region_of l = co then sum_list (map row_total (grp l)) else 0) rows)
      = sum_list (map (\<lambda>t. sum_list (map (\<lambda>s. row_total (snd s))
           (filter (\<lambda>s. region_of (fst t) = co \<and> sector_of (fst s) = sector_of (fst t)) sub))) rows)"
    by (intro arg_cong [where f = sum_list] map_cong refl)
       (auto simp: grp_def comp_def case_prod_unfold)
  also have "\<dots> = sum_list (map (\<lambda>s. row_total (snd s)) sub)"
  proof (rule double_count, rule ballI)
    fix s assume s: "s \<in> set sub"
    then have "fst s \<in> set ?idx" "region_of (fst s) \<in> set agg"
      using rowidx by (auto simp: sub_def)
    with bal have "length (filter (\<lambda>t. region_of t = co \<and> sector_of t = sector_of (fst s)) ?idx) = 1"
      by (auto simp: balanced_def)
    moreover have "filter (\<lambda>t. region_of (fst t) = co \<and> sector_of (fst s) = sector_of (fst t)) rows
        = filter (\<lambda>(l, r). region_of l = co \<and> sector_of l = sector_of (fst s)) rows"
      by (intro filter_cong) auto
    ultimately show "length (filter (\<lambda>t. region_of (fst t) = co
          \<and> sector_of (fst s) = sector_of (fst t)) rows) = 1"
      using length_filter_zip [OF len [symmetric],
          of "\<lambda>t. region_of t = co \<and> sector_of t = sector_of (fst s)"]
      by (simp add: rows_def)
  qed
  also have "\<dots> = sum_list (map (\<lambda>(l, r). if keep l then 0 else row_total r) rows)"
    unfolding sub_def keep_def
    by (simp add: sum_list_if_filter case_prod_unfold) (metis (mono_tags, lifting))
  also have "sum_list (map (\<lambda>(l, r). if keep l then row_total r else 0) rows)
      + sum_list (map (\<lambda>(l, r). if keep l then 0 else row_total r) rows)
      = sum_list (map (\<lambda>(l, r). row_total r) rows)"
    by (simp add: sum_list_addf [symmetric] case_prod_unfold cong: if_cong)
       (intro arg_cong [where f = sum_list] map_cong refl, auto)
  also have "\<dots> = frame_total df"
    using frame_total_zip [OF len] by (simp add: rows_def)
  finally show "frame_total (agg_rows co agg df) = frame_total df" .
qed


lemma wf_transpose: "wf_frame df \<Longrightarrow> wf_frame (transpose_frame df)"
  by (auto simp: wf_frame_def transpose_frame_def list_all_iff)

lemma no_nan_transpose: "wf_frame df \<Longrightarrow> no_nan df \<Longrightarrow> no_nan (transpose_frame df)"
  by (auto simp: wf_frame_def no_nan_def transpose_frame_def list_all_iff)

lemma frame_total_transpose:
  assumes "wf_frame df"
  shows "frame_total (transpose_frame df) = frame_total df"
proof -
  have rows: "\<forall>r\<in>set (df_values df). length r = length (df_columns df)"
    using assms by (simp add: wf_frame_def list_all_iff)
  have "frame_total (transpose_frame df)
      = (\<Sum>j<length (df_columns df). sum_list (map (\<lambda>r. nan0 (r ! j)) (df_values df)))"
    by (simp add: frame_total_def transpose_frame_def comp_def sum_list_sum_nth atLeast0LessThan)
  also have "\<dots> = sum_list (map row_total (df_values df))"
    by (rule group_sum_total [OF rows])
  also have "\<dots> = frame_total df"
    unfolding frame_total_def row_total_def by (rule refl)
  finally show ?thesis .
qed

lemma agg_cols_facts:
  fixes df :: "('r, tup, real option) frame"
  assumes wf: "wf_frame df" and nn: "no_nan df" and bal: "balanced co agg (df_columns df)"
    and co: "co \<notin> set agg"
  shows "frame_total (agg_cols co agg df) = frame_total df"
    and "no_nan (agg_cols co agg df)"
    and "wf_frame (agg_cols co agg df)"
proof -
  let ?t = "transpose_frame df"
  have wt: "wf_frame ?t" and nt: "no_nan ?t" and bt: "balanced co agg (df_index ?t)"
    using wf nn bal by (simp_all add: wf_transpose no_nan_transpose)
  note r = agg_rows_facts [OF wt nt bt co]
  show "frame_total (agg_cols co agg df) = frame_total df"
    unfolding agg_cols_def using r frame_total_transpose [OF r(3)] frame_total_transpose [OF wf] by simp
  show "no_nan (agg_cols co agg df)"
    unfolding agg_cols_def by (rule no_nan_transpose [OF r(3) r(2)])
  show "wf_frame (agg_cols co agg df)"
    unfolding agg_cols_def by (rule wf_transpose [OF r(3)])
qed

lemma balanced_filter:
  assumes bal: "balanced co agg idx" and co: "co \<notin> set rm" and dis: "set agg \<inter> set rm = {}"
  shows "balanced co agg (filter (\<lambda>l. region_of l \<notin> set rm) idx)"
proof -
  have eq: "filter (\<lambda>t. region_of t = co \<and> sector_of t = s) (filter (\<lambda>l. region_of l \<notin> set rm) idx)
      = filter (\<lambda>t. region_of t = co \<and> sector_of t = s) idx" for s
    using co by (auto simp: filter_filter intro!: filter_cong)
  show ?thesis
    unfolding balanced_def eq using bal dis by (auto simp: balanced_def) blast
qed

lemma sub_regions_facts:
  "''CHN'' \<notin> set (sub_regions ''CN'' core)" "''MEX'' \<notin> set (sub_regions ''MX'' core)"
  "''MEX'' \<notin> set (sub_regions ''CN'' core)"
  "set (sub_regions ''MX'' core) \<inter> set (sub_regions ''CN'' core) = {}"
  by (auto simp: sub_regions_def startswith_def)

section \<open>Results for \<open>themis_parser\<close>\<close>

lemma themis_load_given:
  "themis_load fs p (Some t) (Some c) (Some l) = Inr (t, c, l)"
  by (simp add: themis_load_def)

text \<open>
  C10, as stated, at a call with \<open>year = 2010\<close>, no scenario and the default
  \<open>themis = None\<close> on a folder without \<open>Data/THEMIS2.mat\<close>: \<open>scipy.io.loadmat\<close>
  raises before the arguments are compared, so the call does not return \<open>None\<close>.
\<close>

theorem themis_parser_missing_data_raises:
  "themis_parser no_files (\<lambda>t c l. Inr ()) (\<lambda>y s t c l. Inr ()) ''/tmp/'' (Some 2010) None None None None
     = (Inl (FileNotFoundError ''/tmp/Data/THEMIS2.mat''), [])"
  by (simp add: themis_parser_def themis_load_def loadmat_def no_files_def)

text \<open>
  C10, amended: whenever the loading block at the top of the function completes, a call
  with exactly one of \<open>year\<close> and \<open>scenario\<close> being \<open>None\<close> returns \<open>None\<close>, raises
  nothing, builds no system and prints the one message.
\<close>

theorem themis_parser_inconsistent_returns_None:
  assumes "themis_load fs exio_files themis themis_caracs labels = Inr tcl"
    and "(year = None) \<noteq> (scenario = None)"
  shows "themis_parser fs build_all build_one exio_files year scenario themis themis_caracs labels
           = (Inr PyNone, [''scenario and year must be both given or None''])"
  using assms by (cases tcl) (auto simp: themis_parser_def)

theorem themis_parser_inconsistent_returns_None_witness:
  "themis_parser no_files (\<lambda>t c l. Inr ()) (\<lambda>y s t c l. Inr ()) ''/tmp/'' None (Some ''BL'')
       (Some ()) (Some ())
       (Some \<lparr>regions = [], idx_regions = [], impacts = [], idx_impacts = [], sectors = [],
              idx_sectors = [], caracs = [], idx_caracs = []\<rparr>)
     = (Inr PyNone, [''scenario and year must be both given or None''])"
  by (rule themis_parser_inconsistent_returns_None [OF themis_load_given]) simp

end
